theory Spec2Isabelle
  imports Main "HOL-Library.Sublist" "HOL-Library.Option_ord" "HOL-Library.Multiset"
begin

section \<open>iOSynthesis: the device extraction pipeline of QuantumForensix\<close>

text \<open>
  A shallow embedding of \<^verbatim>\<open>iOSynthesis.c\<close>. The program talks to four external
  libraries (libimobiledevice, libplist, SQLite, OpenSSL) and to the C library. What
  those answer is the input of a run: it is collected in the record \<open>env\<close> (and, for
  the cipher, in the record \<open>cipher\<close>). What the program itself keeps is the record
  \<open>state\<close>: its four global pointers, the objects the libraries handed out and that
  are not released yet, the local file system and the console.
\<close>

subsection \<open>Handles, library objects and the program state\<close>

type_synonym handle = nat

text \<open>The kinds of object a library call allocates and a matching call releases.\<close>

datatype obj =
    IDevice
  | Lockdownd_client
  | Service_descriptor string
  | Afc_client
  | Instproxy_client
  | Udid_string
  | Client_options
  | Plist_apps

text \<open>
  The globals \<open>device\<close>, \<open>lockdown\<close>, \<open>afc\<close> and \<open>udid\<close> of the source are
  pointers: \<open>None\<close> is \<open>NULL\<close>. A pointer is not reset when its object is released,
  exactly as in the source. \<open>udid\<close> carries the characters it points to.
  \<open>live\<close> lists the objects handed out and not yet released, in allocation order;
  \<open>bad_free\<close> records every release of a handle that was not live (a second free).
\<close>

record state =
  device :: "handle option"
  lockdown :: "handle option"
  afc :: "handle option"
  udid :: "(handle \<times> string) option"
  live :: "(handle \<times> obj) list"
  bad_free :: "handle list"
  next_handle :: handle
  fs :: "string \<rightharpoonup> string"
  console :: "string list"

definition initial :: "(string \<rightharpoonup> string) \<Rightarrow> state" where
  "initial files =
     \<lparr>device = None, lockdown = None, afc = None, udid = None, live = [],
      bad_free = [], next_handle = 0, fs = files, console = []\<rparr>"

text \<open>The answers of the outside world during one run.\<close>

datatype plist =
    PLIST_STRING string
  | PLIST_ARRAY "plist list"
  | PLIST_DICT "(string \<times> plist) list"
  | PLIST_OTHER

record msg_row =
  msg_date :: "int option"
  msg_handle_id :: "int option"
  msg_text :: "string option"

record sms_db =
  message_tbl :: "msg_row list"
  handle_tbl :: "(int \<times> string option) list"

record env =
  idevice_new_ok :: bool
  handshake_ok :: bool
  device_udid :: "string option"
  start_service_ok :: "string \<Rightarrow> bool"
  afc_client_new_ok :: bool
  instproxy_client_new_ok :: bool
  instproxy_browse_result :: "plist option"
  remote_files :: "string \<rightharpoonup> string"
  can_write :: "string \<Rightarrow> bool"
  can_read :: "string \<Rightarrow> bool"
  sqlite3_open_ok :: "string \<Rightarrow> bool"
  sqlite3_tables :: "string \<Rightarrow> sms_db option"
  datetime_unixepoch :: "int \<Rightarrow> string option"
  ctime_now :: string

abbreviation nl :: char where
  "nl \<equiv> CHR 0x0A"

definition printf :: "string \<Rightarrow> state \<Rightarrow> state" where
  "printf msg s = s\<lparr>console := console s @ [msg]\<rparr>"

text \<open>
  The \<^verbatim>\<open>%s\<close> conversion of the printf family. ISO C leaves a null argument
  undefined; the C libraries of the supported hosts (glibc, Apple's libc) print the six
  characters \<^verbatim>\<open>(null)\<close>.
\<close>

definition fmt_s :: "string option \<Rightarrow> string" where
  "fmt_s p = (case p of None \<Rightarrow> ''(null)'' | Some str \<Rightarrow> str)"

text \<open>\<^verbatim>\<open>snprintf(buf, n, ...)\<close> keeps at most \<open>n - 1\<close> characters.\<close>

definition snprintf :: "nat \<Rightarrow> string \<Rightarrow> string" where
  "snprintf n str = take (n - 1) str"

definition MAX_FILENAME_LEN :: nat where
  "MAX_FILENAME_LEN = 256"

definition ENCRYPTION_KEY :: string where
  "ENCRYPTION_KEY = ''iOSynthesisSecretKey123''"

subsection \<open>Allocation and release\<close>

definition alloc :: "obj \<Rightarrow> state \<Rightarrow> handle \<times> state" where
  "alloc k s =
     (next_handle s,
      s\<lparr>live := live s @ [(next_handle s, k)], next_handle := Suc (next_handle s)\<rparr>)"

definition release :: "handle \<Rightarrow> state \<Rightarrow> state" where
  "release h s =
     (if h \<in> set (map fst (live s))
      then s\<lparr>live := filter (\<lambda>p. fst p \<noteq> h) (live s)\<rparr>
      else s\<lparr>bad_free := bad_free s @ [h]\<rparr>)"

text \<open>
  Every release function of the libraries (\<^verbatim>\<open>idevice_free\<close>,
  \<^verbatim>\<open>lockdownd_client_free\<close>, \<^verbatim>\<open>afc_client_free\<close>,
  \<^verbatim>\<open>lockdownd_service_descriptor_free\<close>, \<^verbatim>\<open>instproxy_client_free\<close>,
  \<^verbatim>\<open>plist_free\<close>, \<^verbatim>\<open>free\<close>) takes a pointer and does nothing on \<open>NULL\<close>.
\<close>

definition free_ptr :: "handle option \<Rightarrow> state \<Rightarrow> state" where
  "free_ptr p s = (case p of None \<Rightarrow> s | Some h \<Rightarrow> release h s)"

abbreviation idevice_free :: "handle option \<Rightarrow> state \<Rightarrow> state" where
  "idevice_free \<equiv> free_ptr"

abbreviation lockdownd_client_free :: "handle option \<Rightarrow> state \<Rightarrow> state" where
  "lockdownd_client_free \<equiv> free_ptr"

abbreviation afc_client_free :: "handle option \<Rightarrow> state \<Rightarrow> state" where
  "afc_client_free \<equiv> free_ptr"

abbreviation lockdownd_service_descriptor_free :: "handle option \<Rightarrow> state \<Rightarrow> state" where
  "lockdownd_service_descriptor_free \<equiv> free_ptr"

abbreviation instproxy_client_free :: "handle option \<Rightarrow> state \<Rightarrow> state" where
  "instproxy_client_free \<equiv> free_ptr"

abbreviation instproxy_client_options_free :: "handle option \<Rightarrow> state \<Rightarrow> state" where
  "instproxy_client_options_free \<equiv> free_ptr"

abbreviation plist_free :: "handle option \<Rightarrow> state \<Rightarrow> state" where
  "plist_free \<equiv> free_ptr"

subsection \<open>Device session: \<^verbatim>\<open>connect_to_device\<close>, \<^verbatim>\<open>disconnect_from_device\<close>\<close>

definition idevice_new :: "env \<Rightarrow> state \<Rightarrow> bool \<times> state" where
  "idevice_new e s =
     (if idevice_new_ok e
      then (let (h, s') = alloc IDevice s in (True, s'\<lparr>device := Some h\<rparr>))
      else (False, s))"

definition lockdownd_client_new_with_handshake :: "env \<Rightarrow> state \<Rightarrow> bool \<times> state" where
  "lockdownd_client_new_with_handshake e s =
     (if handshake_ok e
      then (let (h, s') = alloc Lockdownd_client s in (True, s'\<lparr>lockdown := Some h\<rparr>))
      else (False, s))"

text \<open>The result of \<^verbatim>\<open>lockdownd_get_device_udid\<close> is not looked at by the source.\<close>

definition lockdownd_get_device_udid :: "env \<Rightarrow> state \<Rightarrow> state" where
  "lockdownd_get_device_udid e s =
     (case device_udid e of
        None \<Rightarrow> s
      | Some u \<Rightarrow> (let (h, s') = alloc Udid_string s in s'\<lparr>udid := Some (h, u)\<rparr>))"

definition lockdownd_start_service :: "env \<Rightarrow> string \<Rightarrow> state \<Rightarrow> handle option \<times> state" where
  "lockdownd_start_service e name s =
     (if start_service_ok e name
      then (let (h, s') = alloc (Service_descriptor name) s in (Some h, s'))
      else (None, s))"

definition afc_client_new :: "env \<Rightarrow> state \<Rightarrow> bool \<times> state" where
  "afc_client_new e s =
     (if afc_client_new_ok e
      then (let (h, s') = alloc Afc_client s in (True, s'\<lparr>afc := Some h\<rparr>))
      else (False, s))"

definition connect_to_device :: "env \<Rightarrow> state \<Rightarrow> int \<times> state" where
  "connect_to_device e s0 =
     (let (ok1, s1) = idevice_new e s0 in
      if \<not> ok1 then (- 1, printf (''Error: Unable to connect to device.'' @ [nl]) s1)
      else
        let (ok2, s2) = lockdownd_client_new_with_handshake e s1 in
        if \<not> ok2 then
          (let s3 = printf (''Error: Unable to establish lockdown connection.'' @ [nl]) s2
           in (- 1, idevice_free (device s3) s3))
        else
          let s3 = lockdownd_get_device_udid e s2;
              (service, s4) = lockdownd_start_service e ''com.apple.afc'' s3 in
          if service = None then
            (let s5 = printf (''Error: Unable to start AFC service.'' @ [nl]) s4;
                 s6 = lockdownd_client_free (lockdown s5) s5
             in (- 1, idevice_free (device s6) s6))
          else
            let (ok3, s5) = afc_client_new e s4 in
            if \<not> ok3 then
              (let s6 = printf (''Error: Unable to create AFC client.'' @ [nl]) s5;
                   s7 = lockdownd_client_free (lockdown s6) s6
               in (- 1, idevice_free (device s7) s7))
            else (0, lockdownd_service_descriptor_free service s5))"

definition disconnect_from_device :: "state \<Rightarrow> state" where
  "disconnect_from_device s0 =
     (let s1 = afc_client_free (afc s0) s0;
          s2 = lockdownd_client_free (lockdown s1) s1;
          s3 = idevice_free (device s2) s2
      in free_ptr (map_option fst (udid s3)) s3)"

subsection \<open>Local files\<close>

text \<open>
  A stream is the path it was opened on; \<open>None\<close> is the \<open>NULL\<close> that
  \<^verbatim>\<open>fopen\<close> returns on failure. Opening for writing creates or truncates the file.
\<close>

definition contents :: "state \<Rightarrow> string \<Rightarrow> string" where
  "contents s path = (case fs s path of None \<Rightarrow> [] | Some c \<Rightarrow> c)"

definition fopen_w :: "env \<Rightarrow> string \<Rightarrow> state \<Rightarrow> string option \<times> state" where
  "fopen_w e path s =
     (if can_write e path then (Some path, s\<lparr>fs := (fs s)(path \<mapsto> [])\<rparr>) else (None, s))"

definition fopen_r :: "env \<Rightarrow> string \<Rightarrow> state \<Rightarrow> string option" where
  "fopen_r e path s =
     (if can_read e path then (case fs s path of None \<Rightarrow> None | Some c \<Rightarrow> Some path)
      else None)"

definition fprintf :: "string \<Rightarrow> string \<Rightarrow> state \<Rightarrow> state" where
  "fprintf stream str s = s\<lparr>fs := (fs s)(stream \<mapsto> contents s stream @ str)\<rparr>"

definition remove_file :: "string \<Rightarrow> state \<Rightarrow> state" where
  "remove_file path s = s\<lparr>fs := (fs s)(path := None)\<rparr>"

subsection \<open>Crypto sealer: \<^verbatim>\<open>encrypt_file\<close>\<close>

text \<open>
  The OpenSSL calls are a parameter. Each returns its status (1 for success, 0 for
  failure) next to its result; the source ignores every status. The context type
  \<open>'c\<close> is whatever the library keeps between calls. The key argument is the address
  of the literal \<open>ENCRYPTION_KEY\<close> (AES-256 reads 32 bytes from there) and the
  initialisation vector argument is \<open>NULL\<close>.
\<close>

record 'c cipher =
  EVP_EncryptInit_ex :: "string \<Rightarrow> string option \<Rightarrow> int \<times> 'c"
  EVP_EncryptUpdate :: "'c \<Rightarrow> string \<Rightarrow> int \<times> 'c \<times> string"
  EVP_EncryptFinal_ex :: "'c \<Rightarrow> int \<times> string"

text \<open>Using a \<open>NULL\<close> stream ends the run abnormally.\<close>

datatype fault = Null_stream

text \<open>
  The read loop: \<^verbatim>\<open>fread\<close> hands over at most 1024 bytes of what is left of the
  input, and the loop ends when it hands over none. \<open>out\<close> is what has been written to
  the output stream so far.
\<close>

function encrypt_loop :: "'c cipher \<Rightarrow> 'c \<Rightarrow> string \<Rightarrow> string \<Rightarrow> 'c \<times> string" where
  "encrypt_loop c ctx input out =
     (let inbuf = take 1024 input in
      if 0 < length inbuf
      then (let (rc, ctx', outbuf) = EVP_EncryptUpdate c ctx inbuf
            in encrypt_loop c ctx' (drop 1024 input) (out @ outbuf))
      else (ctx, out))"
  by pat_completeness auto
termination
  by (relation "measure (\<lambda>(c, ctx, input, out). length input)") auto

definition encrypt_file :: "env \<Rightarrow> 'c cipher \<Rightarrow> string \<Rightarrow> string \<Rightarrow> state \<Rightarrow> fault + state" where
  "encrypt_file e c input_file output_file s0 =
     (let ifp = fopen_r e input_file s0;
          (ofp, s1) = fopen_w e output_file s0;
          (rc, ctx) = EVP_EncryptInit_ex c ENCRYPTION_KEY None
      in case ifp of
           None \<Rightarrow> Inl Null_stream
         | Some inp \<Rightarrow>
             (case ofp of
                None \<Rightarrow> Inl Null_stream
              | Some outp \<Rightarrow>
                  (let (ctx', written) = encrypt_loop c ctx (contents s1 inp) [];
                       (rc', final) = EVP_EncryptFinal_ex c ctx'
                   in Inr (fprintf outp (written @ final) s1))))"

subsection \<open>Remote file fetcher\<close>

text \<open>
  Modelled from the spec: \<^verbatim>\<open>copy_file\<close> is called by \<^verbatim>\<open>extract_sms_messages\<close> and
  defined nowhere in the repository. The spec's Remote File Fetcher copies the entire
  remote file to the local path and fails on any read or write failure; the caller
  tests the result against 0.
\<close>

definition copy_file :: "env \<Rightarrow> string \<Rightarrow> string \<Rightarrow> state \<Rightarrow> int \<times> state" where
  "copy_file e remote_path local_path s =
     (case remote_files e remote_path of
        None \<Rightarrow> (- 1, s)
      | Some data \<Rightarrow>
          (if can_write e local_path then (0, s\<lparr>fs := (fs s)(local_path \<mapsto> data)\<rparr>)
           else (- 1, s)))"

subsection \<open>Message extractor: \<^verbatim>\<open>extract_sms_messages\<close>\<close>

text \<open>
  The statement the source prepares is
  \<^verbatim>\<open>SELECT datetime(message.date, 'unixepoch') as date, handle.id as phone_number,
  message.text FROM message LEFT JOIN handle ON message.handle_id = handle.ROWID
  ORDER BY message.date DESC;\<close>
  \<open>handle_tbl\<close> maps a \<open>ROWID\<close> (unique in SQLite) to the \<open>id\<close> column, so the left
  join gives one row per message, with a null \<open>phone_number\<close> where no handle matches.
  SQL \<open>NULL\<close> is \<open>None\<close>; it sorts below every value, hence last under \<open>DESC\<close>.
  Among equal dates SQLite promises no order; the model keeps the table order.
\<close>

type_synonym result_row = "string option \<times> string option \<times> string option"

fun insert_desc :: "msg_row \<Rightarrow> msg_row list \<Rightarrow> msg_row list" where
  "insert_desc m [] = [m]"
| "insert_desc m (x # xs) =
     (if msg_date m < msg_date x then x # insert_desc m xs else m # x # xs)"

definition order_by_date_desc :: "msg_row list \<Rightarrow> msg_row list" where
  "order_by_date_desc ms = foldr insert_desc ms []"

definition left_join_handle :: "sms_db \<Rightarrow> msg_row \<Rightarrow> string option" where
  "left_join_handle db m =
     (case msg_handle_id m of
        None \<Rightarrow> None
      | Some k \<Rightarrow> (case map_of (handle_tbl db) k of None \<Rightarrow> None | Some phone \<Rightarrow> phone))"

definition select_row :: "env \<Rightarrow> sms_db \<Rightarrow> msg_row \<Rightarrow> result_row" where
  "select_row e db m =
     (Option.bind (msg_date m) (datetime_unixepoch e), left_join_handle db m, msg_text m)"

definition run_query :: "env \<Rightarrow> sms_db \<Rightarrow> result_row list" where
  "run_query e db = map (select_row e db) (order_by_date_desc (message_tbl db))"

text \<open>The \<^verbatim>\<open>sqlite3_step\<close> loop: one \<^verbatim>\<open>fprintf\<close> per result row.\<close>

fun step_loop :: "string \<Rightarrow> result_row list \<Rightarrow> state \<Rightarrow> state" where
  "step_loop output [] s = s"
| "step_loop output ((c0, c1, c2) # rows) s =
     step_loop output rows
       (fprintf output (fmt_s c0 @ '','' @ fmt_s c1 @ '','' @ fmt_s c2 @ [nl]) s)"

definition sms_local_path :: "state \<Rightarrow> string" where
  "sms_local_path s = snprintf MAX_FILENAME_LEN (fmt_s (map_option snd (udid s)) @ ''_sms.db'')"

definition extract_sms_messages ::
  "env \<Rightarrow> 'c cipher \<Rightarrow> string \<Rightarrow> state \<Rightarrow> fault + (int \<times> state)" where
  "extract_sms_messages e c output_file s0 =
     (let path = ''/var/mobile/Library/SMS/sms.db'';
          local_path = sms_local_path s0;
          (rc, s1) = copy_file e path local_path s0
      in if rc \<noteq> 0 then Inr (- 1, printf (''Failed to copy SMS database.'' @ [nl]) s1)
         else if \<not> sqlite3_open_ok e (contents s1 local_path)
         then Inr (- 1, printf (''Failed to open SMS database.'' @ [nl]) s1)
         else
           let (output, s2) = fopen_w e output_file s1 in
           case output of
             None \<Rightarrow> Inr (- 1, printf (''Failed to open output file.'' @ [nl]) s2)
           | Some out \<Rightarrow>
               (case sqlite3_tables e (contents s2 local_path) of
                  None \<Rightarrow> Inr (- 1, printf (''Failed to prepare SQL statement.'' @ [nl]) s2)
                | Some db \<Rightarrow>
                    (let s3 = fprintf out (''Date,Phone Number,Message'' @ [nl]) s2;
                         s4 = step_loop out (run_query e db) s3;
                         encrypted_file = snprintf MAX_FILENAME_LEN (output_file @ ''.enc'')
                     in case encrypt_file e c output_file encrypted_file s4 of
                          Inl f \<Rightarrow> Inl f
                        | Inr s5 \<Rightarrow>
                            (let s6 = remove_file output_file s5
                             in Inr (0, printf (''SMS messages extracted and encrypted to ''
                                                 @ encrypted_file @ [nl]) s6)))))"

subsection \<open>Inventory extractor: \<^verbatim>\<open>extract_installed_apps\<close>\<close>

definition plist_array_get_size :: "plist \<Rightarrow> nat" where
  "plist_array_get_size p = (case p of PLIST_ARRAY xs \<Rightarrow> length xs | _ \<Rightarrow> 0)"

definition plist_array_get_item :: "plist \<Rightarrow> nat \<Rightarrow> plist option" where
  "plist_array_get_item p i =
     (case p of PLIST_ARRAY xs \<Rightarrow> (if i < length xs then Some (xs ! i) else None) | _ \<Rightarrow> None)"

definition plist_dict_get_item :: "plist option \<Rightarrow> string \<Rightarrow> plist option" where
  "plist_dict_get_item p key = (case p of Some (PLIST_DICT kvs) \<Rightarrow> map_of kvs key | _ \<Rightarrow> None)"

definition plist_get_string_val :: "plist \<Rightarrow> string option" where
  "plist_get_string_val node = (case node of PLIST_STRING str \<Rightarrow> Some str | _ \<Rightarrow> None)"

text \<open>
  One field of one entry, as the loop body reads it: the value stays \<open>NULL\<close> when the
  key is missing and when the node under it holds no string.
\<close>

definition string_field :: "plist option \<Rightarrow> string \<Rightarrow> string option" where
  "string_field app key =
     (case plist_dict_get_item app key of None \<Rightarrow> None | Some node \<Rightarrow> plist_get_string_val node)"

text \<open>
  The loop over the entries. The counter and the bound are \<^verbatim>\<open>uint32_t\<close>; the counter
  stays below the bound, which libplist reports in the same type, so it never wraps. The
  three strings are allocated and freed again within one iteration and are not tracked.
\<close>

function apps_loop :: "plist \<Rightarrow> nat \<Rightarrow> nat \<Rightarrow> string \<Rightarrow> state \<Rightarrow> state" where
  "apps_loop apps i app_count output s =
     (if i < app_count
      then (let app = plist_array_get_item apps i;
                app_name = string_field app ''CFBundleName'';
                bundle_id = string_field app ''CFBundleIdentifier'';
                version = string_field app ''CFBundleVersion'';
                s' = (case (app_name, bundle_id, version) of
                        (Some n, Some b, Some v) \<Rightarrow>
                          fprintf output (n @ '','' @ b @ '','' @ v @ [nl]) s
                      | _ \<Rightarrow> s)
            in apps_loop apps (Suc i) app_count output s')
      else s)"
  by pat_completeness auto
termination
  by (relation "measure (\<lambda>(apps, i, app_count, output, s). app_count - i)") auto

definition instproxy_client_new :: "env \<Rightarrow> state \<Rightarrow> handle option \<times> state" where
  "instproxy_client_new e s =
     (if instproxy_client_new_ok e
      then (let (h, s') = alloc Instproxy_client s in (Some h, s'))
      else (None, s))"

definition instproxy_browse :: "env \<Rightarrow> state \<Rightarrow> (handle \<times> plist) option \<times> state" where
  "instproxy_browse e s =
     (case instproxy_browse_result e of
        None \<Rightarrow> (None, s)
      | Some apps \<Rightarrow> (let (h, s') = alloc Plist_apps s in (Some (h, apps), s')))"

definition extract_installed_apps :: "env \<Rightarrow> state \<Rightarrow> int \<times> state" where
  "extract_installed_apps e s0 =
     (let (service, s1) =
            lockdownd_start_service e ''com.apple.mobile.installation_proxy'' s0 in
      if service = None
      then (- 1, printf (''Error: Unable to start installation proxy service.'' @ [nl]) s1)
      else
        let (ipc, s2) = instproxy_client_new e s1 in
        if ipc = None
        then (let s3 = printf (''Error: Unable to create installation proxy client.'' @ [nl]) s2
              in (- 1, lockdownd_service_descriptor_free service s3))
        else
          let (opts, s3) = alloc Client_options s2;
              client_opts = Some opts;
              (browsed, s4) = instproxy_browse e s3 in
          case browsed of
            None \<Rightarrow>
              (let s5 = printf (''Error: Unable to retrieve installed apps.'' @ [nl]) s4;
                   s6 = instproxy_client_options_free client_opts s5
               in (- 1, instproxy_client_free ipc s6))
          | Some (apps_h, apps) \<Rightarrow>
              (let (output, s5) = fopen_w e ''installed_apps.csv'' s4 in
               case output of
                 None \<Rightarrow>
                   (let s6 = printf (''Error: Unable to open output file.'' @ [nl]) s5;
                        s7 = plist_free (Some apps_h) s6;
                        s8 = instproxy_client_options_free client_opts s7
                    in (- 1, instproxy_client_free ipc s8))
               | Some out \<Rightarrow>
                   (let s6 = fprintf out (''App Name,Bundle ID,Version'' @ [nl]) s5;
                        s7 = apps_loop apps 0 (plist_array_get_size apps) out s6;
                        s8 = printf (''Installed apps list saved to installed_apps.csv'' @ [nl]) s7;
                        s9 = plist_free (Some apps_h) s8;
                        s10 = instproxy_client_options_free client_opts s9
                    in (0, instproxy_client_free ipc s10))))"

subsection \<open>Report synthesizer: \<^verbatim>\<open>generate_report\<close>\<close>

definition generate_report :: "env \<Rightarrow> string \<Rightarrow> state \<Rightarrow> state" where
  "generate_report e output_file s0 =
     (let (report, s1) = fopen_w e output_file s0 in
      case report of
        None \<Rightarrow> printf (''Error: Unable to create report file.'' @ [nl]) s1
      | Some r \<Rightarrow>
          (let s2 = fprintf r (''iOSynthesis Forensic Report'' @ [nl]) s1;
               s3 = fprintf r (''=========================='' @ [nl, nl]) s2;
               s4 = fprintf r (''Report generated on: '' @ ctime_now e) s3;
               s5 = fprintf r (''Device UDID: '' @ fmt_s (map_option snd (udid s4)) @ [nl, nl]) s4;
               s6 = fprintf r (''1. Extracted Data'' @ [nl]) s5;
               s7 = fprintf r (''   - SMS messages: sms_messages.csv.enc'' @ [nl]) s6;
               s8 = fprintf r (''   - Installed apps: installed_apps.csv'' @ [nl]) s7
           in printf (''Forensic report generated: '' @ output_file @ [nl]) s8))"

subsection \<open>Pipeline orchestrator: \<^verbatim>\<open>main\<close>\<close>

definition connected_msg :: "state \<Rightarrow> string" where
  "connected_msg s =
     ''Connected to iOS device (UDID: '' @ fmt_s (map_option snd (udid s)) @ '').'' @ [nl]"

definition main :: "env \<Rightarrow> 'c cipher \<Rightarrow> state \<Rightarrow> fault + (int \<times> state)" where
  "main e c s0 =
     (let (rc, s1) = connect_to_device e s0 in
      if rc \<noteq> 0 then Inr (1, s1)
      else
        let s2 = printf (connected_msg s1) s1 in
        case extract_sms_messages e c ''sms_messages.csv'' s2 of
          Inl f \<Rightarrow> Inl f
        | Inr (rc_sms, s3) \<Rightarrow>
            (let (rc_apps, s4) = extract_installed_apps e s3;
                 s5 = generate_report e ''forensic_report.txt'' s4;
                 s6 = disconnect_from_device s5
             in Inr (0, printf (''Disconnected from iOS device.'' @ [nl]) s6)))"

subsection \<open>Vocabulary of the claims\<close>

text \<open>
  An entry of the installation listing is complete when the loop body obtains all
  three strings from it; \<open>entry_row\<close> is the line a complete entry stands for.
\<close>

definition has_field :: "plist \<Rightarrow> string \<Rightarrow> bool" where
  "has_field app key = (string_field (Some app) key \<noteq> None)"



text \<open>The objects that only the inventory extractor allocates.\<close>

definition inventory_kind :: "obj \<Rightarrow> bool" where
  "inventory_kind k =
     (case k of Service_descriptor name \<Rightarrow> True | Instproxy_client \<Rightarrow> True
      | Client_options \<Rightarrow> True | Plist_apps \<Rightarrow> True | _ \<Rightarrow> False)"

text \<open>What \<^verbatim>\<open>encrypt_file\<close> writes for given input bytes.\<close>

definition sealed_bytes :: "'c cipher \<Rightarrow> string \<Rightarrow> string" where
  "sealed_bytes c data =
     (let (rc, ctx) = EVP_EncryptInit_ex c ENCRYPTION_KEY None;
          (ctx', written) = encrypt_loop c ctx data [];
          (rc', final) = EVP_EncryptFinal_ex c ctx'
      in written @ final)"

subsection \<open>Concrete runs\<close>

text \<open>
  A device on which every step succeeds: three installed applications, the second
  without a version; three messages dated 100, 50 and 200, the second from a sender that
  no handle row resolves, the third without a body. \<open>demo_cipher\<close> is a stand-in cipher
  whose calls all succeed; \<open>failed_cipher\<close> is a context whose initialisation failed, so
  that every call reports failure and produces no output.
\<close>

definition demo_entries :: "plist list" where
  "demo_entries =
     [PLIST_DICT [(''CFBundleName'', PLIST_STRING ''Notes''),
                  (''CFBundleIdentifier'', PLIST_STRING ''com.example.notes''),
                  (''CFBundleVersion'', PLIST_STRING ''1.0'')],
      PLIST_DICT [(''CFBundleName'', PLIST_STRING ''Maps''),
                  (''CFBundleIdentifier'', PLIST_STRING ''com.example.maps'')],
      PLIST_DICT [(''CFBundleName'', PLIST_STRING ''Chat''),
                  (''CFBundleIdentifier'', PLIST_STRING ''com.example.chat''),
                  (''CFBundleVersion'', PLIST_STRING ''2.3'')]]"

definition demo_apps :: plist where
  "demo_apps = PLIST_ARRAY demo_entries"

definition demo_db :: sms_db where
  "demo_db =
     \<lparr>message_tbl =
        [\<lparr>msg_date = Some 100, msg_handle_id = Some 1, msg_text = Some ''first''\<rparr>,
         \<lparr>msg_date = Some 50, msg_handle_id = Some 7, msg_text = Some ''second''\<rparr>,
         \<lparr>msg_date = Some 200, msg_handle_id = Some 2, msg_text = None\<rparr>],
      handle_tbl = [(1, Some ''+15550001''), (2, Some ''+15550002'')]\<rparr>"

definition demo_datetime :: "int \<Rightarrow> string option" where
  "demo_datetime t =
     (if t = 50 then Some ''1970-01-01 00:00:50''
      else if t = 100 then Some ''1970-01-01 00:01:40''
      else if t = 200 then Some ''1970-01-01 00:03:20''
      else None)"

definition demo_env :: env where
  "demo_env =
     \<lparr>idevice_new_ok = True, handshake_ok = True, device_udid = Some ''00008030A'',
      start_service_ok = (\<lambda>name. True), afc_client_new_ok = True,
      instproxy_client_new_ok = True, instproxy_browse_result = Some demo_apps,
      remote_files = [''/var/mobile/Library/SMS/sms.db'' \<mapsto> ''SQLite format 3''],
      can_write = (\<lambda>path. True), can_read = (\<lambda>path. True),
      sqlite3_open_ok = (\<lambda>data. True),
      sqlite3_tables = (\<lambda>data. if data = ''SQLite format 3'' then Some demo_db else None),
      datetime_unixepoch = demo_datetime,
      ctime_now = ''Tue Nov  3 12:00:00 2026'' @ [nl]\<rparr>"

definition demo_cipher :: "unit cipher" where
  "demo_cipher =
     \<lparr>EVP_EncryptInit_ex = (\<lambda>key iv. (1, ())),
      EVP_EncryptUpdate = (\<lambda>ctx inbuf. (1, (), rev inbuf)),
      EVP_EncryptFinal_ex = (\<lambda>ctx. (1, ''#''))\<rparr>"

definition failed_cipher :: "unit cipher" where
  "failed_cipher =
     \<lparr>EVP_EncryptInit_ex = (\<lambda>key iv. (0, ())),
      EVP_EncryptUpdate = (\<lambda>ctx inbuf. (0, (), [])),
      EVP_EncryptFinal_ex = (\<lambda>ctx. (0, []))\<rparr>"

text \<open>
  The states of the successful run: after the session is open, and after the message
  extractor has run on it. \<open>fetch_fails\<close> is the same device without a readable
  message store.
\<close>

definition demo_connected :: state where
  "demo_connected = snd (connect_to_device demo_env (initial Map.empty))"

definition demo_extracted :: state where
  "demo_extracted =
     snd (projr (extract_sms_messages demo_env demo_cipher ''sms_messages.csv''
                   (printf (connected_msg demo_connected) demo_connected)))"

definition fetch_fails :: env where
  "fetch_fails = demo_env\<lparr>remote_files := Map.empty\<rparr>"

definition fetch_fails_connected :: state where
  "fetch_fails_connected = snd (connect_to_device fetch_fails (initial Map.empty))"

definition fetch_fails_extracted :: state where
  "fetch_fails_extracted =
     printf (''Failed to copy SMS database.'' @ [nl])
       (printf (connected_msg fetch_fails_connected) fetch_fails_connected)"

text \<open>
  \<open>seal_blocked\<close> is the same device on a host where the sealed file cannot be
  opened for writing; everything else succeeds.
\<close>

definition seal_blocked :: env where
  "seal_blocked =
     demo_env\<lparr>can_write := (\<lambda>path. if path = ''sms_messages.csv.enc'' then False else True)\<rparr>"

definition seal_blocked_connected :: state where
  "seal_blocked_connected = snd (connect_to_device seal_blocked (initial Map.empty))"

text \<open>Two file systems that agree on the bytes of one file, under different names.\<close>

definition files_a :: "string \<rightharpoonup> string" where
  "files_a = [''a.csv'' \<mapsto> ''Date,Phone'']"

definition files_b :: "string \<rightharpoonup> string" where
  "files_b = [''copy.csv'' \<mapsto> ''Date,Phone'', ''notes.txt'' \<mapsto> ''x'']"

section \<open>Properties\<close>

lemmas session_defs =
  connect_to_device_def disconnect_from_device_def idevice_new_def
  lockdownd_client_new_with_handshake_def lockdownd_get_device_udid_def
  lockdownd_start_service_def afc_client_new_def alloc_def release_def free_ptr_def
  printf_def initial_def

lemmas file_defs =
  contents_def fopen_w_def fopen_r_def fprintf_def remove_file_def copy_file_def

lemmas extractor_defs =
  extract_sms_messages_def encrypt_file_def sms_local_path_def snprintf_def
  MAX_FILENAME_LEN_def fmt_s_def run_query_def select_row_def left_join_handle_def
  order_by_date_desc_def extract_installed_apps_def instproxy_client_new_def
  instproxy_browse_def plist_array_get_size_def plist_array_get_item_def
  plist_dict_get_item_def plist_get_string_val_def string_field_def
  generate_report_def main_def connected_msg_def



subsection \<open>What each primitive changes\<close>

declare apps_loop.simps [simp del]
declare encrypt_loop.simps [simp del]

lemma fs_printf [simp]: "fs (printf m s) = fs s"
  by (simp add: printf_def)

lemma fs_release [simp]: "fs (release h s) = fs s"
  by (simp add: release_def)

lemma fs_free_ptr [simp]: "fs (free_ptr p s) = fs s"
  by (simp add: free_ptr_def split: option.splits)

lemma sum_InrI: "\<not> isl x \<Longrightarrow> fst (projr x) = a \<Longrightarrow> x = Inr (a, snd (projr x))"
  by (cases x) auto

lemma printf_fields [simp]:
  "device (printf m s) = device s" "lockdown (printf m s) = lockdown s"
  "afc (printf m s) = afc s" "udid (printf m s) = udid s" "live (printf m s) = live s"
  "bad_free (printf m s) = bad_free s" "next_handle (printf m s) = next_handle s"
  "console (printf m s) = console s @ [m]"
  by (simp_all add: printf_def)

lemma fprintf_fields [simp]:
  "device (fprintf out str s) = device s" "lockdown (fprintf out str s) = lockdown s"
  "afc (fprintf out str s) = afc s" "udid (fprintf out str s) = udid s"
  "live (fprintf out str s) = live s" "bad_free (fprintf out str s) = bad_free s"
  "next_handle (fprintf out str s) = next_handle s" "console (fprintf out str s) = console s"
  by (simp_all add: fprintf_def)

lemma remove_file_fields [simp]:
  "device (remove_file p s) = device s" "lockdown (remove_file p s) = lockdown s"
  "afc (remove_file p s) = afc s" "udid (remove_file p s) = udid s"
  "live (remove_file p s) = live s" "bad_free (remove_file p s) = bad_free s"
  "next_handle (remove_file p s) = next_handle s" "console (remove_file p s) = console s"
  by (simp_all add: remove_file_def)

lemma release_fields [simp]:
  "device (release h s) = device s" "lockdown (release h s) = lockdown s"
  "afc (release h s) = afc s" "udid (release h s) = udid s"
  "next_handle (release h s) = next_handle s" "console (release h s) = console s"
  by (simp_all add: release_def)

lemma live_release [simp]: "live (release h s) = filter (\<lambda>p. fst p \<noteq> h) (live s)"
proof (cases "h \<in> set (map fst (live s))")
  case True
  then show ?thesis by (simp add: release_def)
next
  case False
  then have "filter (\<lambda>p. fst p \<noteq> h) (live s) = live s"
    by (intro filter_True) auto
  with False show ?thesis by (simp add: release_def)
qed

lemma bad_free_release:
  "bad_free (release h s) = (if h \<in> set (map fst (live s)) then bad_free s else bad_free s @ [h])"
  by (simp add: release_def)

lemma free_ptr_fields [simp]:
  "device (free_ptr p s) = device s" "lockdown (free_ptr p s) = lockdown s"
  "afc (free_ptr p s) = afc s" "udid (free_ptr p s) = udid s"
  "next_handle (free_ptr p s) = next_handle s" "console (free_ptr p s) = console s"
  "live (free_ptr p s) = filter (\<lambda>x. Some (fst x) \<noteq> p) (live s)"
  by (cases p; simp add: free_ptr_def)+

lemma bad_free_free_ptr:
  "bad_free (free_ptr p s)
     = (case p of None \<Rightarrow> bad_free s
        | Some h \<Rightarrow> if h \<in> set (map fst (live s)) then bad_free s else bad_free s @ [h])"
  by (simp add: free_ptr_def bad_free_release split: option.splits)

lemma alloc_fields [simp]:
  "fst (alloc k s) = next_handle s"
  "device (snd (alloc k s)) = device s" "lockdown (snd (alloc k s)) = lockdown s"
  "afc (snd (alloc k s)) = afc s" "udid (snd (alloc k s)) = udid s"
  "live (snd (alloc k s)) = live s @ [(next_handle s, k)]"
  "bad_free (snd (alloc k s)) = bad_free s" "next_handle (snd (alloc k s)) = Suc (next_handle s)"
  "fs (snd (alloc k s)) = fs s" "console (snd (alloc k s)) = console s"
  by (simp_all add: alloc_def)

lemma disconnect_fields [simp]:
  "device (disconnect_from_device s) = device s"
  "lockdown (disconnect_from_device s) = lockdown s"
  "afc (disconnect_from_device s) = afc s" "udid (disconnect_from_device s) = udid s"
  "next_handle (disconnect_from_device s) = next_handle s"
  "console (disconnect_from_device s) = console s"
  by (simp_all add: disconnect_from_device_def Let_def)

lemma live_disconnect:
  "live (disconnect_from_device s)
     = filter (\<lambda>x. Some (fst x) \<noteq> afc s \<and> Some (fst x) \<noteq> lockdown s \<and>
                    Some (fst x) \<noteq> device s \<and> Some (fst x) \<noteq> map_option fst (udid s))
         (live s)"
  by (simp add: disconnect_from_device_def Let_def conj_commute conj_left_commute)

lemma generate_report_fields [simp]:
  "device (generate_report e f s) = device s" "lockdown (generate_report e f s) = lockdown s"
  "afc (generate_report e f s) = afc s" "udid (generate_report e f s) = udid s"
  "live (generate_report e f s) = live s" "bad_free (generate_report e f s) = bad_free s"
  "next_handle (generate_report e f s) = next_handle s"
  by (simp_all add: generate_report_def fopen_w_def Let_def split: prod.splits)

subsection \<open>Facts about the concrete runs\<close>

lemma demo_connect: "connect_to_device demo_env (initial Map.empty) = (0, demo_connected)"
  by (simp add: demo_connected_def prod_eq_iff session_defs demo_env_def)

lemma demo_connected_fields:
  "device demo_connected = Some 0" "lockdown demo_connected = Some 1"
  "afc demo_connected = Some 4" "udid demo_connected = Some (2, ''00008030A'')"
  "live demo_connected
     = [(0, IDevice), (1, Lockdownd_client), (2, Udid_string), (4, Afc_client)]"
  "bad_free demo_connected = []" "next_handle demo_connected = 5"
  "fs demo_connected = Map.empty"
  by (simp_all add: demo_connected_def session_defs demo_env_def)

lemma demo_extract:
  "extract_sms_messages demo_env demo_cipher ''sms_messages.csv''
     (printf (connected_msg demo_connected) demo_connected) = Inr (0, demo_extracted)"
  unfolding demo_extracted_def
  by (rule sum_InrI)
     (simp_all add: extractor_defs file_defs demo_env_def demo_db_def demo_datetime_def
        demo_cipher_def demo_connected_fields encrypt_loop.simps Let_def)

lemma fetch_fails_connect:
  "connect_to_device fetch_fails (initial Map.empty) = (0, fetch_fails_connected)"
  by (simp add: fetch_fails_connected_def fetch_fails_def prod_eq_iff session_defs demo_env_def)

lemma fetch_fails_extract:
  "extract_sms_messages fetch_fails c ''sms_messages.csv''
     (printf (connected_msg fetch_fails_connected) fetch_fails_connected)
   = Inr (- 1, fetch_fails_extracted)"
  by (simp add: extract_sms_messages_def copy_file_def fetch_fails_def fetch_fails_extracted_def
        Let_def)

subsection \<open>Session open\<close>

text \<open>
  C1. A failed open should leave no handle open. When the AFC client cannot be created
  the service descriptor and the identifier string obtained before stay allocated, and
  when the AFC service cannot be started the identifier string stays allocated: both
  error paths release the lockdown client and the device only. When the handshake or the
  discovery fails nothing stays allocated.
\<close>

theorem connect_failure_leaks:
  "fst (connect_to_device (demo_env\<lparr>afc_client_new_ok := False\<rparr>) (initial Map.empty)) = - 1 \<and>
   live (snd (connect_to_device (demo_env\<lparr>afc_client_new_ok := False\<rparr>) (initial Map.empty)))
     = [(2, Udid_string), (3, Service_descriptor ''com.apple.afc'')] \<and>
   fst (connect_to_device (demo_env\<lparr>start_service_ok := (\<lambda>name. False)\<rparr>)
         (initial Map.empty)) = - 1 \<and>
   live (snd (connect_to_device (demo_env\<lparr>start_service_ok := (\<lambda>name. False)\<rparr>)
         (initial Map.empty)))
     = [(2, Udid_string)] \<and>
   live (snd (connect_to_device (demo_env\<lparr>handshake_ok := False\<rparr>) (initial Map.empty))) = [] \<and>
   live (snd (connect_to_device (demo_env\<lparr>idevice_new_ok := False\<rparr>) (initial Map.empty))) = []"
  by (simp add: session_defs demo_env_def)

subsection \<open>Session close\<close>

text \<open>
  C8. Closing twice should have the effect of closing once. The first close after a
  successful open releases the four objects of the session; the globals keep pointing
  at them, so the second close releases each of the four again. A close on the initial
  state, where all four globals are \<open>NULL\<close>, changes nothing; a close after an open
  that failed at the handshake frees the device a second time.
\<close>

theorem second_close_frees_again:
  "live (disconnect_from_device demo_connected) = [] \<and>
   bad_free (disconnect_from_device demo_connected) = [] \<and>
   bad_free (disconnect_from_device (disconnect_from_device demo_connected)) = [4, 1, 0, 2] \<and>
   disconnect_from_device (initial Map.empty) = initial Map.empty \<and>
   bad_free (disconnect_from_device
      (snd (connect_to_device (demo_env\<lparr>handshake_ok := False\<rparr>) (initial Map.empty)))) = [0]"
  by (simp add: demo_connected_def session_defs demo_env_def)

subsection \<open>Inventory extractor\<close>


lemma apps_loop_frame:
  "p \<noteq> out \<Longrightarrow> fs (apps_loop apps i n out s) p = fs s p"
proof (induction apps i n out s rule: apps_loop.induct)
  case (1 apps i app_count outp s)
  show ?case
  proof (cases "i < app_count")
    case True
    show ?thesis
      using True 1
      by (subst apps_loop.simps)
         (auto simp: Let_def fprintf_def split: option.splits)
  next
    case False
    then show ?thesis by (subst apps_loop.simps) simp
  qed
qed

lemma has_field_dict:
  "has_field (PLIST_DICT kvs) key \<longleftrightarrow> (\<exists>str. map_of kvs key = Some (PLIST_STRING str))"
  by (auto simp: has_field_def string_field_def plist_dict_get_item_def
        plist_get_string_val_def split: option.splits plist.splits)



subsection \<open>Crypto sealer\<close>

lemma encrypt_file_opens:
  "encrypt_file e c inp out s = Inr t \<Longrightarrow> can_read e inp \<and> fs s inp \<noteq> None \<and> can_write e out"
  by (auto simp: encrypt_file_def fopen_r_def fopen_w_def Let_def
           split: prod.splits option.splits if_splits)

lemma encrypt_file_total:
  "can_read e inp \<Longrightarrow> fs s inp \<noteq> None \<Longrightarrow> can_write e out \<Longrightarrow>
   encrypt_file e c inp out s
     = Inr (fprintf out (sealed_bytes c (contents (s\<lparr>fs := (fs s)(out \<mapsto> [])\<rparr>) inp))
             (s\<lparr>fs := (fs s)(out \<mapsto> [])\<rparr>))"
  by (auto simp: encrypt_file_def sealed_bytes_def fopen_r_def fopen_w_def Let_def
           split: prod.splits option.splits if_splits)

lemma encrypt_file_output:
  assumes "encrypt_file e c inp out s = Inr t" and "inp \<noteq> out"
  shows "fs t out = Some (sealed_bytes c (contents s inp))"
proof -
  from encrypt_file_opens [OF assms(1)]
  have o: "can_read e inp" "fs s inp \<noteq> None" "can_write e out" by simp_all
  show ?thesis
    using assms encrypt_file_total [OF o, of c]
    by (auto simp: fprintf_def contents_def)
qed

lemma encrypt_file_frame:
  "encrypt_file e c inp out s = Inr t \<Longrightarrow> p \<noteq> out \<Longrightarrow> fs t p = fs s p"
  by (auto simp: encrypt_file_def fopen_r_def fopen_w_def fprintf_def Let_def
           split: prod.splits option.splits if_splits)

lemma encrypt_file_fields:
  "encrypt_file e c inp out s = Inr t \<Longrightarrow>
   device t = device s \<and> lockdown t = lockdown s \<and> afc t = afc s \<and> udid t = udid s \<and>
   live t = live s \<and> bad_free t = bad_free s \<and> next_handle t = next_handle s \<and>
   console t = console s"
  by (auto simp: encrypt_file_def fopen_r_def fopen_w_def Let_def
           split: prod.splits option.splits if_splits)

text \<open>
  C10. Sealing is deterministic. The key argument is the fixed literal and the
  initialisation vector argument is \<open>NULL\<close>, so for one cipher (one build of the
  program against one library) the sealed file is a function of the input bytes alone:
  two runs of \<^verbatim>\<open>encrypt_file\<close> that both return, on any two machines, file systems
  and file names, write the same bytes whenever their input files hold the same bytes.
  The input and the output are different files, as they are for every caller.
\<close>

theorem seal_deterministic:
  assumes "encrypt_file e1 c in1 out1 s1 = Inr t1"
    and "encrypt_file e2 c in2 out2 s2 = Inr t2"
    and "fs s1 in1 = fs s2 in2"
    and "in1 \<noteq> out1" and "in2 \<noteq> out2"
  shows "fs t1 out1 = fs t2 out2 \<and> fs t1 out1 \<noteq> None"
  using encrypt_file_output [OF assms(1) assms(4)] encrypt_file_output [OF assms(2) assms(5)]
    assms(3)
  by (simp add: contents_def)

theorem seal_deterministic_witness:
  "encrypt_file demo_env demo_cipher ''a.csv'' ''a.csv.enc'' (initial files_a)
     = Inr (projr (encrypt_file demo_env demo_cipher ''a.csv'' ''a.csv.enc'' (initial files_a))) \<and>
   encrypt_file fetch_fails demo_cipher ''copy.csv'' ''sealed.bin'' (initial files_b)
     = Inr (projr (encrypt_file fetch_fails demo_cipher ''copy.csv'' ''sealed.bin''
                     (initial files_b))) \<and>
   fs (initial files_a) ''a.csv'' = fs (initial files_b) ''copy.csv'' \<and>
   fs (projr (encrypt_file demo_env demo_cipher ''a.csv'' ''a.csv.enc'' (initial files_a)))
      ''a.csv.enc''
   = fs (projr (encrypt_file fetch_fails demo_cipher ''copy.csv'' ''sealed.bin''
                  (initial files_b))) ''sealed.bin'' \<and>
   fs (projr (encrypt_file demo_env demo_cipher ''a.csv'' ''a.csv.enc'' (initial files_a)))
      ''a.csv.enc'' \<noteq> None"
proof -
  have h1: "encrypt_file demo_env demo_cipher ''a.csv'' ''a.csv.enc'' (initial files_a)
     = Inr (projr (encrypt_file demo_env demo_cipher ''a.csv'' ''a.csv.enc'' (initial files_a)))"
    by (simp add: encrypt_file_total demo_env_def initial_def files_a_def)
  have h2: "encrypt_file fetch_fails demo_cipher ''copy.csv'' ''sealed.bin'' (initial files_b)
     = Inr (projr (encrypt_file fetch_fails demo_cipher ''copy.csv'' ''sealed.bin''
                     (initial files_b)))"
    by (simp add: encrypt_file_total fetch_fails_def demo_env_def initial_def files_b_def)
  have h3: "fs (initial files_a) ''a.csv'' = fs (initial files_b) ''copy.csv''"
    by (simp add: initial_def files_a_def files_b_def)
  have h4: "''a.csv'' \<noteq> ''a.csv.enc''" and h5: "''copy.csv'' \<noteq> ''sealed.bin''"
    by simp_all
  note d = seal_deterministic [OF h1 h2 h3 h4 h5]
  show ?thesis
    by (intro conjI) (rule h1, rule h2, rule h3, rule conjunct1 [OF d], rule conjunct2 [OF d])
qed

subsection \<open>Message extractor\<close>

lemma step_loop_frame: "p \<noteq> out \<Longrightarrow> fs (step_loop out rows s) p = fs s p"
  by (induction out rows s rule: step_loop.induct) (simp_all add: fprintf_def)

lemma sms_local_path_neq:
  assumes "length p < 255" and "p = [] \<or> last p \<noteq> CHR ''b''"
  shows "sms_local_path s \<noteq> p"
proof (cases "length (fmt_s (map_option snd (udid s)) @ ''_sms.db'') \<le> 255")
  case True
  then have "sms_local_path s = fmt_s (map_option snd (udid s)) @ ''_sms.db''"
    by (simp add: sms_local_path_def snprintf_def MAX_FILENAME_LEN_def)
  then have "sms_local_path s \<noteq> [] \<and> last (sms_local_path s) = CHR ''b''"
    by simp
  with assms(2) show ?thesis by auto
next
  case False
  then have "length (sms_local_path s) = 255"
    by (simp add: sms_local_path_def snprintf_def MAX_FILENAME_LEN_def)
  with assms(1) show ?thesis by auto
qed

lemma sms_local_path_printf [simp]: "sms_local_path (printf m s) = sms_local_path s"
  by (simp add: sms_local_path_def printf_def)

lemma extract_sms_keeps_raw_copy:
  assumes "extract_sms_messages e c out s = Inr (0, s')"
    and "sms_local_path s \<noteq> out"
    and "sms_local_path s \<noteq> snprintf MAX_FILENAME_LEN (out @ ''.enc'')"
  shows "fs s' (sms_local_path s) = remote_files e ''/var/mobile/Library/SMS/sms.db'' \<and>
         remote_files e ''/var/mobile/Library/SMS/sms.db'' \<noteq> None \<and> fs s' out = None"
proof -
  obtain rc s1 where cp: "copy_file e ''/var/mobile/Library/SMS/sms.db'' (sms_local_path s) s = (rc, s1)"
    by (cases "copy_file e ''/var/mobile/Library/SMS/sms.db'' (sms_local_path s) s")
  obtain outp s2 where fo: "fopen_w e out s1 = (outp, s2)"
    by (cases "fopen_w e out s1")
  from assms(1) cp fo obtain db ofile s5 where
    a: "rc = 0" "outp = Some ofile"
       "encrypt_file e c out (snprintf MAX_FILENAME_LEN (out @ ''.enc''))
          (step_loop ofile (run_query e db)
             (fprintf ofile (''Date,Phone Number,Message'' @ [nl]) s2)) = Inr s5"
       "s' = printf (''SMS messages extracted and encrypted to ''
                      @ snprintf MAX_FILENAME_LEN (out @ ''.enc'') @ [nl])
               (remove_file out s5)"
    by (auto simp: extract_sms_messages_def Let_def
             split: if_splits option.splits sum.splits)
  from fo a(2) have of_eq: "ofile = out" and s2: "s2 = s1\<lparr>fs := (fs s1)(out \<mapsto> [])\<rparr>"
    by (auto simp: fopen_w_def split: if_splits)
  from cp a(1) have s1: "fs s1 (sms_local_path s) = remote_files e ''/var/mobile/Library/SMS/sms.db''"
    and r: "remote_files e ''/var/mobile/Library/SMS/sms.db'' \<noteq> None"
    by (auto simp: copy_file_def split: option.splits if_splits)
  have "fs s5 (sms_local_path s) = fs s1 (sms_local_path s)"
    using encrypt_file_frame [OF a(3) assms(3)] assms(2)
    by (simp add: of_eq s2 step_loop_frame fprintf_def)
  then show ?thesis
    using s1 r assms(2) by (simp add: a(4) remove_file_def)
qed

text \<open>
  The query: one row per message, most recent first. The four ways in which the
  extractor fails before the seal all return -1.
\<close>

lemma insert_desc_mset: "mset (insert_desc m xs) = add_mset m (mset xs)"
  by (induction xs) auto

lemma order_by_date_desc_mset: "mset (order_by_date_desc ms) = mset ms"
  by (induction ms) (simp_all add: order_by_date_desc_def insert_desc_mset)

lemma insert_desc_set: "set (insert_desc m xs) = insert m (set xs)"
  by (induction xs) auto

lemma insert_desc_sorted:
  "sorted_wrt (\<lambda>a b. msg_date b \<le> msg_date a) xs \<Longrightarrow>
   sorted_wrt (\<lambda>a b. msg_date b \<le> msg_date a) (insert_desc m xs)"
  by (induction xs) (auto simp: insert_desc_set)

lemma order_by_date_desc_sorted:
  "sorted_wrt (\<lambda>a b. msg_date b \<le> msg_date a) (order_by_date_desc ms)"
  by (induction ms) (simp_all add: order_by_date_desc_def insert_desc_sorted)

lemma run_query_one_row_per_message:
  "length (run_query e db) = length (message_tbl db)"
proof -
  have "size (mset (order_by_date_desc (message_tbl db))) = size (mset (message_tbl db))"
    by (simp only: order_by_date_desc_mset)
  then show ?thesis by (simp add: run_query_def)
qed

lemma extract_sms_fetch_failure:
  "remote_files e ''/var/mobile/Library/SMS/sms.db'' = None \<Longrightarrow>
   extract_sms_messages e c out s = Inr (- 1, printf (''Failed to copy SMS database.'' @ [nl]) s)"
  by (simp add: extract_sms_messages_def copy_file_def Let_def)

lemma extract_sms_open_failure:
  "copy_file e ''/var/mobile/Library/SMS/sms.db'' (sms_local_path s) s = (0, s1) \<Longrightarrow>
   \<not> sqlite3_open_ok e (contents s1 (sms_local_path s)) \<Longrightarrow>
   extract_sms_messages e c out s = Inr (- 1, printf (''Failed to open SMS database.'' @ [nl]) s1)"
  by (simp add: extract_sms_messages_def Let_def)

lemma extract_sms_output_failure:
  "copy_file e ''/var/mobile/Library/SMS/sms.db'' (sms_local_path s) s = (0, s1) \<Longrightarrow>
   sqlite3_open_ok e (contents s1 (sms_local_path s)) \<Longrightarrow> \<not> can_write e out \<Longrightarrow>
   extract_sms_messages e c out s = Inr (- 1, printf (''Failed to open output file.'' @ [nl]) s1)"
  by (simp add: extract_sms_messages_def fopen_w_def Let_def)

lemma extract_sms_query_failure:
  "copy_file e ''/var/mobile/Library/SMS/sms.db'' (sms_local_path s) s = (0, s1) \<Longrightarrow>
   sqlite3_open_ok e (contents s1 (sms_local_path s)) \<Longrightarrow> can_write e out \<Longrightarrow>
   sqlite3_tables e (contents (s1\<lparr>fs := (fs s1)(out \<mapsto> [])\<rparr>) (sms_local_path s)) = None \<Longrightarrow>
   extract_sms_messages e c out s
     = Inr (- 1, printf (''Failed to prepare SQL statement.'' @ [nl])
                   (s1\<lparr>fs := (fs s1)(out \<mapsto> [])\<rparr>))"
  by (simp add: extract_sms_messages_def fopen_w_def Let_def)

text \<open>
  C6. The rows are written in the order the query gives them (most recent first) and a
  message without a resolvable sender keeps its row. A null column, though, is handed to
  the \<^verbatim>\<open>%s\<close> conversion as the null pointer \<^verbatim>\<open>sqlite3_column_text\<close> returns:
  the field is not empty, it holds the C library's rendering of a null string. Here the
  body of the message dated 200 and the sender of the message dated 50 are null.
\<close>

theorem null_fields_printed_as_null:
  "contents (step_loop ''sms_messages.csv'' (run_query demo_env demo_db) (initial Map.empty))
      ''sms_messages.csv''
    = ''1970-01-01 00:03:20,+15550002,(null)'' @ [nl] @
      ''1970-01-01 00:01:40,+15550001,first'' @ [nl] @
      ''1970-01-01 00:00:50,(null),second'' @ [nl]"
  by (simp add: run_query_def select_row_def left_join_handle_def order_by_date_desc_def
        demo_env_def demo_db_def demo_datetime_def fmt_s_def fprintf_def contents_def
        initial_def)

text \<open>
  C4 as stated fails. With a cipher whose initialisation fails (status 0, no output
  from any call) the seal produces an empty file, and the extractor still deletes the
  plaintext and returns 0.
\<close>

theorem seal_failure_still_deletes_plaintext:
  "fst (EVP_EncryptInit_ex failed_cipher ENCRYPTION_KEY None) = 0 \<and>
   \<not> isl (extract_sms_messages demo_env failed_cipher ''sms_messages.csv'' demo_connected) \<and>
   fst (projr (extract_sms_messages demo_env failed_cipher ''sms_messages.csv''
                 demo_connected)) = 0 \<and>
   fs (snd (projr (extract_sms_messages demo_env failed_cipher ''sms_messages.csv''
                     demo_connected))) ''sms_messages.csv'' = None \<and>
   fs (snd (projr (extract_sms_messages demo_env failed_cipher ''sms_messages.csv''
                     demo_connected))) ''sms_messages.csv.enc'' = Some []"
  by (simp add: extractor_defs file_defs demo_env_def demo_db_def demo_datetime_def
        failed_cipher_def demo_connected_fields encrypt_loop.simps Let_def)

text \<open>
  C4, as amended. The seal routine returns nothing and none of the statuses of the
  cipher calls is looked at, so the deletion of the plaintext file is not tied to the
  outcome of the seal: if the extractor returns 0 with one cipher, it returns 0 with any
  other cipher as well, whatever statuses and bytes that one produces, and the plaintext
  file is gone afterwards.
\<close>

theorem plaintext_removed_whatever_cipher:
  fixes c :: "'c cipher" and c' :: "'d cipher"
  assumes "extract_sms_messages e c out s = Inr (0, s')"
  shows "\<exists>s''. extract_sms_messages e c' out s = Inr (0, s'') \<and> fs s'' out = None"
proof -
  obtain rc s1 where cp: "copy_file e ''/var/mobile/Library/SMS/sms.db'' (sms_local_path s) s = (rc, s1)"
    by (cases "copy_file e ''/var/mobile/Library/SMS/sms.db'' (sms_local_path s) s")
  obtain outp s2 where fo: "fopen_w e out s1 = (outp, s2)"
    by (cases "fopen_w e out s1")
  from assms cp fo obtain db ofile s5 where
    a: "rc = 0" "sqlite3_open_ok e (contents s1 (sms_local_path s))" "outp = Some ofile"
       "sqlite3_tables e (contents s2 (sms_local_path s)) = Some db"
       "encrypt_file e c out (snprintf MAX_FILENAME_LEN (out @ ''.enc''))
          (step_loop ofile (run_query e db)
             (fprintf ofile (''Date,Phone Number,Message'' @ [nl]) s2)) = Inr s5"
    by (auto simp: extract_sms_messages_def Let_def
             split: if_splits option.splits sum.splits)
  from encrypt_file_opens [OF a(5)] have o:
    "can_read e out"
    "fs (step_loop ofile (run_query e db)
             (fprintf ofile (''Date,Phone Number,Message'' @ [nl]) s2)) out \<noteq> None"
    "can_write e (snprintf MAX_FILENAME_LEN (out @ ''.enc''))"
    by simp_all
  show ?thesis
    using cp fo a(1-4) encrypt_file_total [OF o, of c']
    by (simp add: extract_sms_messages_def Let_def remove_file_def)
qed

theorem plaintext_removed_whatever_cipher_witness:
  "extract_sms_messages demo_env demo_cipher ''sms_messages.csv''
     (printf (connected_msg demo_connected) demo_connected) = Inr (0, demo_extracted) \<and>
   \<not> isl (extract_sms_messages demo_env failed_cipher ''sms_messages.csv''
            (printf (connected_msg demo_connected) demo_connected)) \<and>
   fst (projr (extract_sms_messages demo_env failed_cipher ''sms_messages.csv''
            (printf (connected_msg demo_connected) demo_connected))) = 0 \<and>
   fs (snd (projr (extract_sms_messages demo_env failed_cipher ''sms_messages.csv''
            (printf (connected_msg demo_connected) demo_connected)))) ''sms_messages.csv'' = None"
  using plaintext_removed_whatever_cipher [OF demo_extract, of failed_cipher] demo_extract
  by auto

subsection \<open>Pipeline\<close>

lemma fs_disconnect [simp]: "fs (disconnect_from_device s) = fs s"
  by (simp add: disconnect_from_device_def Let_def)

lemma generate_report_frame: "p \<noteq> f \<Longrightarrow> fs (generate_report e f s) p = fs s p"
  by (simp add: generate_report_def fopen_w_def fprintf_def Let_def split: prod.splits)

lemma extract_installed_apps_frame:
  "p \<noteq> ''installed_apps.csv'' \<Longrightarrow> fs (snd (extract_installed_apps e s)) p = fs s p"
  by (simp add: extract_installed_apps_def lockdownd_start_service_def
        instproxy_client_new_def instproxy_browse_def alloc_def fopen_w_def
        fprintf_def apps_loop_frame Let_def split: option.splits prod.splits)

lemma step_loop_fields [simp]:
  "device (step_loop out rows s) = device s" "lockdown (step_loop out rows s) = lockdown s"
  "afc (step_loop out rows s) = afc s" "udid (step_loop out rows s) = udid s"
  "live (step_loop out rows s) = live s" "bad_free (step_loop out rows s) = bad_free s"
  "next_handle (step_loop out rows s) = next_handle s"
  "console (step_loop out rows s) = console s"
  by (induction out rows s rule: step_loop.induct; simp)+

lemma apps_loop_fields [simp]:
  "device (apps_loop apps i n out s) = device s \<and> lockdown (apps_loop apps i n out s) = lockdown s \<and>
   afc (apps_loop apps i n out s) = afc s \<and> udid (apps_loop apps i n out s) = udid s \<and>
   live (apps_loop apps i n out s) = live s \<and> bad_free (apps_loop apps i n out s) = bad_free s \<and>
   next_handle (apps_loop apps i n out s) = next_handle s \<and>
   console (apps_loop apps i n out s) = console s"
proof (induction apps i n out s rule: apps_loop.induct)
  case (1 apps i app_count outp s)
  show ?case
  proof (cases "i < app_count")
    case True
    show ?thesis
      using True 1
      by (subst (1 2 3 4 5 6 7 8) apps_loop.simps)
         (auto simp: Let_def split: option.splits)
  next
    case False
    then show ?thesis by (subst (1 2 3 4 5 6 7 8) apps_loop.simps) simp
  qed
qed

lemma extract_sms_fields:
  assumes "extract_sms_messages e c out s = Inr (rc, s')"
  shows "device s' = device s \<and> lockdown s' = lockdown s \<and> afc s' = afc s \<and>
         udid s' = udid s \<and> live s' = live s \<and> bad_free s' = bad_free s \<and>
         next_handle s' = next_handle s"
proof -
  obtain r s1 where cp: "copy_file e ''/var/mobile/Library/SMS/sms.db'' (sms_local_path s) s = (r, s1)"
    by (cases "copy_file e ''/var/mobile/Library/SMS/sms.db'' (sms_local_path s) s")
  obtain outp s2 where fo: "fopen_w e out s1 = (outp, s2)"
    by (cases "fopen_w e out s1")
  have f1: "device s1 = device s \<and> lockdown s1 = lockdown s \<and> afc s1 = afc s \<and>
         udid s1 = udid s \<and> live s1 = live s \<and> bad_free s1 = bad_free s \<and>
         next_handle s1 = next_handle s"
    using cp by (auto simp: copy_file_def split: option.splits if_splits)
  have f2: "device s2 = device s1 \<and> lockdown s2 = lockdown s1 \<and> afc s2 = afc s1 \<and>
         udid s2 = udid s1 \<and> live s2 = live s1 \<and> bad_free s2 = bad_free s1 \<and>
         next_handle s2 = next_handle s1"
    using fo by (auto simp: fopen_w_def split: if_splits)
  show ?thesis
    using assms cp fo f1 f2
    by (auto simp: extract_sms_messages_def Let_def
             dest!: encrypt_file_fields
             split: if_splits option.splits sum.splits)
qed

lemma extract_installed_apps_pointers [simp]:
  "device (snd (extract_installed_apps e s)) = device s"
  "lockdown (snd (extract_installed_apps e s)) = lockdown s"
  "afc (snd (extract_installed_apps e s)) = afc s"
  "udid (snd (extract_installed_apps e s)) = udid s"
  by (simp_all add: extract_installed_apps_def lockdownd_start_service_def
        instproxy_client_new_def instproxy_browse_def fopen_w_def split_def Let_def
        split: option.splits)

lemma extract_installed_apps_live:
  "x \<in> set (live (snd (extract_installed_apps e s))) \<Longrightarrow>
   x \<in> set (live s) \<or> inventory_kind (snd x)"
  by (auto simp: extract_installed_apps_def lockdownd_start_service_def
        instproxy_client_new_def instproxy_browse_def fopen_w_def split_def Let_def
        inventory_kind_def
        split: option.splits if_splits)

lemma connect_success_owned:
  assumes "connect_to_device e (initial files) = (0, s1)"
  shows "\<forall>x \<in> set (live s1). Some (fst x) = afc s1 \<or> Some (fst x) = lockdown s1 \<or>
            Some (fst x) = device s1 \<or> Some (fst x) = map_option fst (udid s1)"
  using assms
  by (cases "device_udid e")
     (auto simp: session_defs Let_def split: if_splits)

lemma main_after_connect:
  assumes "connect_to_device e s0 = (0, s1)"
    and "extract_sms_messages e c ''sms_messages.csv'' (printf (connected_msg s1) s1) = Inr (rc, s2)"
  shows "main e c s0
           = Inr (0, printf (''Disconnected from iOS device.'' @ [nl])
                       (disconnect_from_device
                          (generate_report e ''forensic_report.txt''
                             (snd (extract_installed_apps e s2)))))"
  using assms by (simp add: main_def Let_def split: prod.splits)

text \<open>
  When the message extractor returns, with whatever result, the run goes on: \<^verbatim>\<open>main\<close>
  returns 0, its final state is the one obtained by running the inventory extractor, then
  the report synthesizer, then the session close on the state the extractor left, and at
  the end the device, the lockdown client, the AFC client and the identifier string are
  all released (what is still allocated was allocated by the inventory extractor). This
  covers the failures of the fetch, of the opening of the store, of the plaintext output
  file and of the query, which all return -1.
\<close>

lemma main_continues_when_extractor_returns:
  assumes "connect_to_device e (initial files) = (0, s1)"
    and "extract_sms_messages e c ''sms_messages.csv'' (printf (connected_msg s1) s1) = Inr (rc, s2)"
    and "rc \<noteq> 0"
  shows "\<exists>s'. main e c (initial files) = Inr (0, s') \<and>
           s' = printf (''Disconnected from iOS device.'' @ [nl])
                  (disconnect_from_device
                     (generate_report e ''forensic_report.txt''
                        (snd (extract_installed_apps e s2)))) \<and>
           (\<forall>x \<in> set (live s'). inventory_kind (snd x))"
proof -
  let ?s4 = "snd (extract_installed_apps e s2)"
  let ?s' = "printf (''Disconnected from iOS device.'' @ [nl])
               (disconnect_from_device (generate_report e ''forensic_report.txt'' ?s4))"
  have m: "main e c (initial files) = Inr (0, ?s')"
    using assms(1,2) by (rule main_after_connect)
  have f: "device s2 = device s1 \<and> lockdown s2 = lockdown s1 \<and> afc s2 = afc s1 \<and>
           udid s2 = udid s1 \<and> live s2 = live s1"
    using extract_sms_fields [OF assms(2)] by simp
  have "inventory_kind (snd x)" if x: "x \<in> set (live ?s')" for x
  proof -
    from x have a: "x \<in> set (live ?s4)"
      and b: "Some (fst x) \<noteq> afc s1" "Some (fst x) \<noteq> lockdown s1"
             "Some (fst x) \<noteq> device s1" "Some (fst x) \<noteq> map_option fst (udid s1)"
      using f by (simp_all add: live_disconnect)
    from extract_installed_apps_live [OF a] show ?thesis
    proof
      assume "x \<in> set (live s2)"
      with f connect_success_owned [OF assms(1)] b show ?thesis by auto
    qed
  qed
  with m show ?thesis by blast
qed

lemma main_continues_after_fetch_failure:
  "main fetch_fails demo_cipher (initial Map.empty)
     = Inr (0, printf (''Disconnected from iOS device.'' @ [nl])
                 (disconnect_from_device
                    (generate_report fetch_fails ''forensic_report.txt''
                       (snd (extract_installed_apps fetch_fails fetch_fails_extracted)))))"
proof -
  have n: "(- 1 :: int) \<noteq> 0" by simp
  from main_continues_when_extractor_returns [OF fetch_fails_connect fetch_fails_extract n]
  show ?thesis by auto
qed

lemma seal_blocked_connect:
  "connect_to_device seal_blocked (initial Map.empty) = (0, seal_blocked_connected)"
  by (simp add: seal_blocked_connected_def seal_blocked_def prod_eq_iff session_defs
        demo_env_def)

lemma seal_blocked_connected_fields:
  "udid seal_blocked_connected = Some (2, ''00008030A'')"
  "fs seal_blocked_connected = Map.empty"
  "live seal_blocked_connected
     = [(0, IDevice), (1, Lockdownd_client), (2, Udid_string), (4, Afc_client)]"
  by (simp_all add: seal_blocked_connected_def seal_blocked_def session_defs demo_env_def)

lemma seal_blocked_extract:
  "extract_sms_messages seal_blocked demo_cipher ''sms_messages.csv''
     (printf (connected_msg seal_blocked_connected) seal_blocked_connected) = Inl Null_stream"
  by (simp add: extractor_defs file_defs seal_blocked_def demo_env_def demo_db_def
        demo_datetime_def demo_cipher_def seal_blocked_connected_fields Let_def)

text \<open>
  C3. Once the session is open, a failure of the message extractor should never end the
  run. It does not when the extractor returns its failure (fetch, store, plaintext output
  file, query). The output error of the seal step is different: \<^verbatim>\<open>encrypt_file\<close>
  tests neither of its two \<^verbatim>\<open>fopen\<close> results, so when the sealed file cannot be
  opened the extractor does not return: the write goes to a \<open>NULL\<close> stream and the run
  ends there, after the plaintext was written, with the session objects still allocated
  and without the inventory extractor, the report synthesizer or the session close.
\<close>

theorem seal_output_failure_aborts_run:
  "connect_to_device seal_blocked (initial Map.empty) = (0, seal_blocked_connected) \<and>
   live seal_blocked_connected
     = [(0, IDevice), (1, Lockdownd_client), (2, Udid_string), (4, Afc_client)] \<and>
   can_write seal_blocked ''sms_messages.csv'' \<and>
   \<not> can_write seal_blocked ''sms_messages.csv.enc'' \<and>
   extract_sms_messages seal_blocked demo_cipher ''sms_messages.csv''
     (printf (connected_msg seal_blocked_connected) seal_blocked_connected) = Inl Null_stream \<and>
   main seal_blocked demo_cipher (initial Map.empty) = Inl Null_stream"
  by (simp add: main_def seal_blocked_connect seal_blocked_extract
        seal_blocked_connected_fields)
     (simp add: seal_blocked_def demo_env_def)

text \<open>
  C9. When the session opens and the message extractor returns 0, the run completes
  and at its end the raw copy of the message store, under the name built from the device
  identifier, still holds the bytes fetched from the device, while the plaintext
  \<^verbatim>\<open>sms_messages.csv\<close> is gone: neither the extractor nor a later stage removes or
  rewrites the copy.
\<close>

theorem raw_copy_persists:
  assumes "connect_to_device e s0 = (0, s1)"
    and "extract_sms_messages e c ''sms_messages.csv'' (printf (connected_msg s1) s1) = Inr (0, s2)"
  shows "\<exists>s'. main e c s0 = Inr (0, s') \<and>
           fs s' (sms_local_path s1) = remote_files e ''/var/mobile/Library/SMS/sms.db'' \<and>
           fs s' (sms_local_path s1) \<noteq> None \<and>
           fs s' ''sms_messages.csv'' = None"
proof -
  let ?s' = "printf (''Disconnected from iOS device.'' @ [nl])
               (disconnect_from_device
                 (generate_report e ''forensic_report.txt'' (snd (extract_installed_apps e s2))))"
  have m: "main e c s0 = Inr (0, ?s')"
    using assms by (simp add: main_def Let_def split: prod.splits)
  have n1: "sms_local_path s1 \<noteq> ''sms_messages.csv''"
    and n2: "sms_local_path s1 \<noteq> ''sms_messages.csv.enc''"
    and n3: "sms_local_path s1 \<noteq> ''installed_apps.csv''"
    and n4: "sms_local_path s1 \<noteq> ''forensic_report.txt''"
    by (rule sms_local_path_neq; simp)+
  have k: "fs s2 (sms_local_path s1) = remote_files e ''/var/mobile/Library/SMS/sms.db'' \<and>
           remote_files e ''/var/mobile/Library/SMS/sms.db'' \<noteq> None \<and>
           fs s2 ''sms_messages.csv'' = None"
    using extract_sms_keeps_raw_copy [OF assms(2)] n1 n2
    by (simp add: snprintf_def MAX_FILENAME_LEN_def)
  have "fs ?s' (sms_local_path s1) = fs s2 (sms_local_path s1)"
    using n3 n4 by (simp add: generate_report_frame extract_installed_apps_frame)
  moreover have "fs ?s' ''sms_messages.csv'' = fs s2 ''sms_messages.csv''"
    by (simp add: generate_report_frame extract_installed_apps_frame)
  ultimately show ?thesis using m k by simp
qed

theorem raw_copy_persists_witness:
  "connect_to_device demo_env (initial Map.empty) = (0, demo_connected) \<and>
   extract_sms_messages demo_env demo_cipher ''sms_messages.csv''
     (printf (connected_msg demo_connected) demo_connected) = Inr (0, demo_extracted) \<and>
   sms_local_path demo_connected = ''00008030A_sms.db'' \<and>
   remote_files demo_env ''/var/mobile/Library/SMS/sms.db'' = Some ''SQLite format 3'' \<and>
   fs (snd (projr (main demo_env demo_cipher (initial Map.empty)))) ''00008030A_sms.db''
     = Some ''SQLite format 3'' \<and>
   fs (snd (projr (main demo_env demo_cipher (initial Map.empty)))) ''sms_messages.csv'' = None"
proof -
  have p: "sms_local_path demo_connected = ''00008030A_sms.db''"
    by (simp add: sms_local_path_def snprintf_def MAX_FILENAME_LEN_def fmt_s_def
          demo_connected_fields)
  have r: "remote_files demo_env ''/var/mobile/Library/SMS/sms.db'' = Some ''SQLite format 3''"
    by (simp add: demo_env_def)
  from raw_copy_persists [OF demo_connect demo_extract] p r demo_connect demo_extract
  show ?thesis by auto
qed

subsection \<open>Report synthesizer\<close>








subsection \<open>Resource symmetry\<close>

lemma demo_extracted_fields:
  "device demo_extracted = Some 0" "lockdown demo_extracted = Some 1"
  "afc demo_extracted = Some 4" "udid demo_extracted = Some (2, ''00008030A'')"
  "live demo_extracted
     = [(0, IDevice), (1, Lockdownd_client), (2, Udid_string), (4, Afc_client)]"
  "next_handle demo_extracted = 5" "bad_free demo_extracted = []"
  using extract_sms_fields [OF demo_extract] by (simp_all add: demo_connected_fields)

lemma demo_main:
  "main demo_env demo_cipher (initial Map.empty)
     = Inr (0, printf (''Disconnected from iOS device.'' @ [nl])
                 (disconnect_from_device
                    (generate_report demo_env ''forensic_report.txt''
                       (snd (extract_installed_apps demo_env demo_extracted)))))"
  using demo_connect demo_extract by (rule main_after_connect)

lemma demo_inventory_live:
  "fst (extract_installed_apps demo_env demo_extracted) = 0 \<and>
   live (snd (extract_installed_apps demo_env demo_extracted))
     = [(0, IDevice), (1, Lockdownd_client), (2, Udid_string), (4, Afc_client),
        (5, Service_descriptor ''com.apple.mobile.installation_proxy'')] \<and>
   bad_free (snd (extract_installed_apps demo_env demo_extracted)) = []"
  by (simp add: extract_installed_apps_def lockdownd_start_service_def
        instproxy_client_new_def instproxy_browse_def fopen_w_def split_def Let_def
        demo_env_def demo_extracted_fields bad_free_free_ptr)

text \<open>
  C2. After the close, no service descriptor opened during the run should remain open.
  On the run in which every step succeeds, the inventory extractor returns 0 and the
  close releases the four session objects without a double free, but the descriptor that
  \<^verbatim>\<open>lockdownd_start_service\<close> returned for the installation proxy is still
  allocated at the end: only the path on which \<^verbatim>\<open>instproxy_client_new\<close> fails
  frees it.
\<close>

theorem inventory_descriptor_leak:
  "\<not> isl (main demo_env demo_cipher (initial Map.empty)) \<and>
   fst (projr (main demo_env demo_cipher (initial Map.empty))) = 0 \<and>
   fst (extract_installed_apps demo_env demo_extracted) = 0 \<and>
   live (snd (projr (main demo_env demo_cipher (initial Map.empty))))
     = [(5, Service_descriptor ''com.apple.mobile.installation_proxy'')] \<and>
   bad_free (snd (projr (main demo_env demo_cipher (initial Map.empty)))) = []"
  by (simp add: demo_main live_disconnect demo_inventory_live demo_extracted_fields
        disconnect_from_device_def Let_def bad_free_free_ptr)

end
